theory Spec2Isabelle
  imports Complex_Main
begin

section \<open>Python values used by the SMPSO class\<close>

text \<open>
  The exceptions the methods of \<^verbatim>\<open>jmetal/algorithm/multiobjective/smpso.py\<close> can raise.
  A method that raises returns the error as a value.
\<close>

datatype error = TypeError | IndexError | KeyError | AttributeError | ValueError

text \<open>
  Python floats are modelled by real numbers (rounding and overflow are left out), with
  one more value: \<open>NaN\<close>, which the code itself creates when it stores \<^verbatim>\<open>None\<close> into the
  float matrix \<^verbatim>\<open>self.speed\<close> (numpy converts \<^verbatim>\<open>None\<close> to nan). Arithmetic with nan gives
  nan, and every comparison with nan is false.
\<close>

datatype npfloat = Num real | NaN

fun fadd :: "npfloat \<Rightarrow> npfloat \<Rightarrow> npfloat" where
  "fadd (Num x) (Num y) = Num (x + y)"
| "fadd _ _ = NaN"

fun fsub :: "npfloat \<Rightarrow> npfloat \<Rightarrow> npfloat" where
  "fsub (Num x) (Num y) = Num (x - y)"
| "fsub _ _ = NaN"

fun fmul :: "npfloat \<Rightarrow> npfloat \<Rightarrow> npfloat" where
  "fmul (Num x) (Num y) = Num (x * y)"
| "fmul _ _ = NaN"

fun flt :: "npfloat \<Rightarrow> npfloat \<Rightarrow> bool" where
  "flt (Num x) (Num y) = (x < y)"
| "flt _ _ = False"

fun fgt :: "npfloat \<Rightarrow> npfloat \<Rightarrow> bool" where
  "fgt (Num x) (Num y) = (x > y)"
| "fgt _ _ = False"

text \<open>
  Storing the result of \<^verbatim>\<open>__velocity_constriction\<close> (a float or \<^verbatim>\<open>None\<close>) into a numpy
  array of floats.
\<close>

fun np_store :: "real option \<Rightarrow> npfloat" where
  "np_store (Some x) = Num x"
| "np_store None = NaN"

text \<open>
  Subscripts. \<^verbatim>\<open>range(n)\<close> yields the integers \<open>0..<n\<close>, so a subscript that comes from a
  range is a natural number and can only fail by being too large. A subscript can also
  be a float, when the loop variable runs over the elements of a list of floats: a
  Python list then raises TypeError, a numpy array IndexError.
\<close>

datatype pykey = IntKey nat | FloatKey npfloat

definition list_getitem :: "'a list \<Rightarrow> nat \<Rightarrow> error + 'a" where
  "list_getitem xs i = (if i < length xs then Inr (xs ! i) else Inl IndexError)"

definition list_setitem :: "'a list \<Rightarrow> nat \<Rightarrow> 'a \<Rightarrow> error + 'a list" where
  "list_setitem xs i v = (if i < length xs then Inr (xs[i := v]) else Inl IndexError)"

fun list_getitem_key :: "'a list \<Rightarrow> pykey \<Rightarrow> error + 'a" where
  "list_getitem_key xs (IntKey i) = list_getitem xs i"
| "list_getitem_key xs (FloatKey f) = Inl TypeError"

fun list_setitem_key :: "'a list \<Rightarrow> pykey \<Rightarrow> 'a \<Rightarrow> error + 'a list" where
  "list_setitem_key xs (IntKey i) v = list_setitem xs i v"
| "list_setitem_key xs (FloatKey f) v = Inl TypeError"

fun array_getitem_key :: "'a list \<Rightarrow> pykey \<Rightarrow> error + 'a" where
  "array_getitem_key xs (IntKey i) = list_getitem xs i"
| "array_getitem_key xs (FloatKey f) = Inl IndexError"

fun array_setitem_key :: "'a list \<Rightarrow> pykey \<Rightarrow> 'a \<Rightarrow> error + 'a list" where
  "array_setitem_key xs (IntKey i) v = list_setitem xs i v"
| "array_setitem_key xs (FloatKey f) v = Inl IndexError"

text \<open>\<^verbatim>\<open>m[i][j]\<close> and \<^verbatim>\<open>m[i][j] = v\<close> on the two-dimensional array \<^verbatim>\<open>self.speed\<close>.\<close>

definition matrix_getitem :: "'a list list \<Rightarrow> nat \<Rightarrow> pykey \<Rightarrow> error + 'a" where
  "matrix_getitem m i j =
     (case list_getitem m i of
        Inl e \<Rightarrow> Inl e
      | Inr row \<Rightarrow> array_getitem_key row j)"

definition matrix_setitem :: "'a list list \<Rightarrow> nat \<Rightarrow> pykey \<Rightarrow> 'a \<Rightarrow> error + 'a list list" where
  "matrix_setitem m i j v =
     (case list_getitem m i of
        Inl e \<Rightarrow> Inl e
      | Inr row \<Rightarrow>
          (case array_setitem_key row j v of
             Inl e \<Rightarrow> Inl e
           | Inr row' \<Rightarrow> Inr (m[i := row'])))"

text \<open>A dictionary with string keys, in insertion order.\<close>

definition dict_getitem :: "(string \<times> 'a) list \<Rightarrow> string \<Rightarrow> error + 'a" where
  "dict_getitem d k = (case map_of d k of None \<Rightarrow> Inl KeyError | Some v \<Rightarrow> Inr v)"

fun dict_setitem :: "(string \<times> 'a) list \<Rightarrow> string \<Rightarrow> 'a \<Rightarrow> (string \<times> 'a) list" where
  "dict_setitem [] k v = [(k, v)]"
| "dict_setitem ((k', v') # d) k v =
     (if k' = k then (k, v) # d else (k', v') # dict_setitem d k v)"

section \<open>Solutions\<close>

text \<open>
  Modelled from the spec: the class \<^verbatim>\<open>FloatSolution\<close> (\<^verbatim>\<open>jmetal.core.solution\<close>) is not
  among the sources. The spec's data model gives a solution a vector of decision
  variables, a vector of objective values and an open attribute map, which holds under
  the key \<^verbatim>\<open>local_best\<close> a full copy of the best solution the particle has visited. The
  source reads the fields as \<^verbatim>\<open>variables\<close> and \<^verbatim>\<open>attributes\<close>. The copy kept in the
  attribute map is referenced from nowhere else, so it is a value nested in its owner.
\<close>

datatype solution =
  Solution (variables: "npfloat list") (objectives: "real list")
    (attributes: "(string \<times> solution) list")

definition set_variables :: "solution \<Rightarrow> npfloat list \<Rightarrow> solution" where
  "set_variables p vs = Solution vs (objectives p) (attributes p)"

definition set_attribute :: "solution \<Rightarrow> string \<Rightarrow> solution \<Rightarrow> solution" where
  "set_attribute p k v = Solution (variables p) (objectives p) (dict_setitem (attributes p) k v)"

text \<open>
  Modelled from the spec: \<^verbatim>\<open>copy(solution)\<close> resolves to \<^verbatim>\<open>FloatSolution.__copy__\<close>, which
  is not among the sources; the spec calls the result a full copy. As a value the copy
  has the content of the original; that it is a new object shows where it is put into
  the object store (\<open>new_object\<close> below).
\<close>

definition copy :: "solution \<Rightarrow> solution" where
  "copy p = p"

text \<open>
  The source reads \<^verbatim>\<open>self.swarm[i].attribute\<close> in \<^verbatim>\<open>update_particle_best\<close>; a solution
  has the field \<^verbatim>\<open>attributes\<close> (read so at every other place of the source) and no field
  \<^verbatim>\<open>attribute\<close>, so Python raises AttributeError.
\<close>

definition getattr_attribute :: "solution \<Rightarrow> error + (string \<times> solution) list" where
  "getattr_attribute p = Inl AttributeError"

text \<open>
  Modelled from the spec: \<^verbatim>\<open>DominanceComparator\<close> (\<^verbatim>\<open>jmetal.util.comparator\<close>) is not
  among the sources. By the spec, \<^verbatim>\<open>compare(a, b)\<close> is -1 when \<open>a\<close> dominates \<open>b\<close> (every
  objective of \<open>a\<close> is at most that of \<open>b\<close> and one is strictly less), 1 when \<open>b\<close>
  dominates \<open>a\<close>, and 0 otherwise.
\<close>

definition dominates :: "real list \<Rightarrow> real list \<Rightarrow> bool" where
  "dominates a b =
     (list_all (\<lambda>(x, y). x \<le> y) (zip a b) \<and> list_ex (\<lambda>(x, y). x < y) (zip a b))"

definition dominance_compare :: "solution \<Rightarrow> solution \<Rightarrow> int" where
  "dominance_compare a b =
     (if dominates (objectives a) (objectives b) then - 1
      else if dominates (objectives b) (objectives a) then 1
      else 0)"

section \<open>The state of an SMPSO object\<close>

text \<open>
  Solutions that are shared by reference (the particles of the swarm, the members of
  the Leaders archive) live in an object store; a reference is a position in it.
\<close>

type_synonym ref = nat

definition new_object :: "solution list \<Rightarrow> solution \<Rightarrow> solution list \<times> ref" where
  "new_object objs p = (objs @ [p], length objs)"

text \<open>
  Modelled from the spec: \<^verbatim>\<open>FloatProblem\<close> (\<^verbatim>\<open>jmetal.core.problem\<close>) is not among the
  sources; the source reads these three fields of it.
\<close>

record float_problem =
  number_of_variables :: nat
  lower_bound :: "real list"
  upper_bound :: "real list"

text \<open>
  Modelled from the spec: \<^verbatim>\<open>BoundedArchive\<close> (\<^verbatim>\<open>jmetal.component.archive\<close>) is not among
  the sources. The source reads its \<^verbatim>\<open>solution_list\<close> and the \<^verbatim>\<open>compare\<close> of its
  \<^verbatim>\<open>get_comparator()\<close> and calls its \<^verbatim>\<open>add\<close>. The capacity and the density estimator are
  what the spec's \<^verbatim>\<open>add\<close> needs: \<open>density ms k\<close> is the score of member \<open>k\<close> of the
  members \<open>ms\<close>.
\<close>

record archive =
  solution_list :: "ref list"
  maximum_size :: nat
  comparator :: "solution \<Rightarrow> solution \<Rightarrow> int"
  density :: "solution list \<Rightarrow> nat \<Rightarrow> real"

text \<open>
  The fields \<^verbatim>\<open>__init__\<close> sets, the swarm (set by the base class), and the object store.
  The mutation operator is a collaborator: \<open>mutation k p\<close> is what its \<open>k\<close>-th call of a
  generation makes of the solution \<open>p\<close>, or the error it raises.
\<close>

record smpso =
  objects :: "solution list"
  swarm :: "ref list"
  problem :: float_problem
  swarm_size :: nat
  max_evaluations :: int
  mutation :: "nat \<Rightarrow> solution \<Rightarrow> error + solution"
  leaders :: archive
  evaluations :: int
  c1_min :: real
  c1_max :: real
  c2_min :: real
  c2_max :: real
  min_weight :: real
  max_weight :: real
  change_velocity1 :: real
  change_velocity2 :: real
  speed :: "npfloat list list"
  delta_max :: "real list"
  delta_min :: "real list"

section \<open>The constructor\<close>

text \<open>
  \<^verbatim>\<open>delta_max[i] = (upper_bound[i] - lower_bound[i]) / 2.0\<close> for \<open>i\<close> in
  \<^verbatim>\<open>range(number_of_variables)\<close>, stopping at the first bound that is missing.
\<close>

fun init_delta_max :: "float_problem \<Rightarrow> nat list \<Rightarrow> error + real list" where
  "init_delta_max pr [] = Inr []"
| "init_delta_max pr (i # rest) =
     (case list_getitem (upper_bound pr) i of
        Inl e \<Rightarrow> Inl e
      | Inr ub \<Rightarrow>
          (case list_getitem (lower_bound pr) i of
             Inl e \<Rightarrow> Inl e
           | Inr lb \<Rightarrow>
               (case init_delta_max pr rest of
                  Inl e \<Rightarrow> Inl e
                | Inr ds \<Rightarrow> Inr ((ub - lb) / 2 # ds))))"

definition init :: "float_problem \<Rightarrow> nat \<Rightarrow> int \<Rightarrow> (nat \<Rightarrow> solution \<Rightarrow> error + solution)
    \<Rightarrow> archive \<Rightarrow> error + smpso" where
  "init pr n max_evals mut lead =
     (case init_delta_max pr [0..<number_of_variables pr] of
        Inl e \<Rightarrow> Inl e
      | Inr dmax \<Rightarrow>
          Inr \<lparr> objects = [], swarm = [], problem = pr, swarm_size = n,
                max_evaluations = max_evals, mutation = mut, leaders = lead,
                evaluations = 0,
                c1_min = 1.5, c1_max = 2.5, c2_min = 1.5, c2_max = 2.5,
                min_weight = 0.1, max_weight = 0.1,
                change_velocity1 = - 1, change_velocity2 = - 1,
                speed = replicate n (replicate (number_of_variables pr) (Num 0)),
                delta_max = dmax,
                delta_min = map (\<lambda>d. - 1 * d) dmax \<rparr>)"

section \<open>Stopping condition and result\<close>

definition is_stopping_condition_reached :: "smpso \<Rightarrow> bool" where
  "is_stopping_condition_reached s = (evaluations s \<ge> max_evaluations s)"

text \<open>
  \<^verbatim>\<open>get_result\<close> evaluates \<^verbatim>\<open>self.leaders.solution_list\<close> and drops the value: the body
  has no \<^verbatim>\<open>return\<close>, so the call returns \<^verbatim>\<open>None\<close>.
\<close>

definition get_result :: "smpso \<Rightarrow> ref list option" where
  "get_result s = (let unused = solution_list (leaders s) in None)"

section \<open>Velocity: constriction and clamping\<close>

text \<open>
  \<^verbatim>\<open>__velocity_constriction\<close>: \<^verbatim>\<open>result\<close> starts as \<^verbatim>\<open>None\<close> and is assigned only in the two
  out-of-range branches.
\<close>

definition velocity_constriction :: "smpso \<Rightarrow> npfloat \<Rightarrow> nat \<Rightarrow> error + real option" where
  "velocity_constriction s val variable_index =
     (case list_getitem (delta_max s) variable_index of
        Inl e \<Rightarrow> Inl e
      | Inr dmax \<Rightarrow>
          (let result = (if fgt val (Num dmax) then Some dmax else None) in
           (case list_getitem (delta_min s) variable_index of
              Inl e \<Rightarrow> Inl e
            | Inr dmin \<Rightarrow> Inr (if flt val (Num dmin) then Some dmin else result))))"

text \<open>
  \<^verbatim>\<open>__constriction_coefficient\<close>. In the else branch \<open>rho > 4\<close>, so the argument of the
  square root is positive and the denominator is below \<open>-2\<close> (lemma
  \<open>constriction_denominator\<close>): neither nan nor a division by zero arises, and the real
  square root and division are those of the code.
\<close>

definition constriction_coefficient :: "real \<Rightarrow> real \<Rightarrow> real" where
  "constriction_coefficient c1 c2 =
     (let rho = c1 + c2 in
      if rho \<le> 4 then 1
      else 2 / (2 - rho - sqrt (rho ^ 2 - 4 * rho)))"

section \<open>The random generator\<close>

text \<open>
  Python's \<^verbatim>\<open>random\<close> module is a collaborator. What the five calls of one iteration of
  \<^verbatim>\<open>update_velocity\<close> return (a value or an error) is a parameter of the model, named
  after the call expressions of the source: \<^verbatim>\<open>Random.sample(population, 2)\<close>, the two
  \<^verbatim>\<open>Random.random()\<close> and the two \<^verbatim>\<open>Random.uniform(a, b)\<close>.
\<close>

record draws =
  Random_sample :: "ref list \<Rightarrow> nat \<Rightarrow> error + ref list"
  Random_random1 :: "error + real"
  Random_random2 :: "error + real"
  Random_uniform1 :: "real \<Rightarrow> real \<Rightarrow> error + real"
  Random_uniform2 :: "real \<Rightarrow> real \<Rightarrow> error + real"

text \<open>
  The calls as the source writes them. \<^verbatim>\<open>Random\<close> is the class imported by
  \<^verbatim>\<open>from random import Random\<close>, and the source calls its methods on the class, with no
  instance: in \<^verbatim>\<open>Random.sample(xs, 2)\<close> the list is taken for \<^verbatim>\<open>self\<close> and \<^verbatim>\<open>k\<close> is
  missing, \<^verbatim>\<open>Random.random()\<close> has no \<^verbatim>\<open>self\<close>, and in \<^verbatim>\<open>Random.uniform(a, b)\<close> the
  argument \<^verbatim>\<open>b\<close> is missing. Python raises TypeError at each of them.
\<close>

definition class_calls :: draws where
  "class_calls =
     \<lparr> Random_sample = (\<lambda>population k. Inl TypeError),
       Random_random1 = Inl TypeError,
       Random_random2 = Inl TypeError,
       Random_uniform1 = (\<lambda>a b. Inl TypeError),
       Random_uniform2 = (\<lambda>a b. Inl TypeError) \<rparr>"

text \<open>
  The calls on a generator instance, as Python documents them: \<^verbatim>\<open>sample(population, k)\<close>
  raises ValueError when \<open>k\<close> exceeds the size of the population and otherwise returns
  the members at \<open>k\<close> distinct positions; \<open>pick\<close> is the generator's choice of positions,
  \<open>r1\<close>, \<open>r2\<close>, \<open>c1\<close>, \<open>c2\<close> its choice of numbers.
\<close>

definition py_sample :: "nat list \<Rightarrow> 'a list \<Rightarrow> nat \<Rightarrow> error + 'a list" where
  "py_sample pick population k =
     (if length population < k then Inl ValueError
      else Inr (map (\<lambda>i. population ! i) pick))"

definition instance_calls :: "nat list \<Rightarrow> real \<Rightarrow> real \<Rightarrow> real \<Rightarrow> real \<Rightarrow> draws" where
  "instance_calls pick r1 r2 c1 c2 =
     \<lparr> Random_sample = py_sample pick,
       Random_random1 = Inr r1,
       Random_random2 = Inr r2,
       Random_uniform1 = (\<lambda>a b. Inr c1),
       Random_uniform2 = (\<lambda>a b. Inr c2) \<rparr>"

section \<open>Global-best selection and the velocity update\<close>

definition select_global_best :: "draws \<Rightarrow> smpso \<Rightarrow> error + solution" where
  "select_global_best d s =
     (case Random_sample d (solution_list (leaders s)) 2 of
        Inl e \<Rightarrow> Inl e
      | Inr particles \<Rightarrow>
          (case list_getitem particles 0 of
             Inl e \<Rightarrow> Inl e
           | Inr p0 \<Rightarrow>
               (case list_getitem particles 1 of
                  Inl e \<Rightarrow> Inl e
                | Inr p1 \<Rightarrow>
                    if comparator (leaders s) (objects s ! p0) (objects s ! p1) < 1
                    then Inr (copy (objects s ! p0))
                    else Inr (copy (objects s ! p1)))))"

text \<open>The local variables of one iteration of the outer loop of \<^verbatim>\<open>update_velocity\<close>.\<close>

record velocity_locals =
  particle :: solution
  best_particle :: solution
  best_global :: solution
  drawn_r1 :: real
  drawn_r2 :: real
  drawn_c1 :: real
  drawn_c2 :: real

text \<open>The body of the inner loop: the assignment to \<^verbatim>\<open>self.speed[i][var]\<close>.\<close>

definition raw_velocity :: "smpso \<Rightarrow> velocity_locals \<Rightarrow> npfloat \<Rightarrow> npfloat \<Rightarrow> npfloat \<Rightarrow> npfloat
    \<Rightarrow> npfloat" where
  "raw_velocity s l v bp x bg =
     (let wmax = max_weight s in
      fmul (Num (constriction_coefficient (drawn_c1 l) (drawn_c2 l)))
        (fadd (fadd (fmul (Num wmax) v)
                    (fmul (Num (drawn_c1 l * drawn_r1 l)) (fsub bp x)))
              (fmul (Num (drawn_c2 l * drawn_r2 l)) (fsub bg x))))"

definition velocity_var :: "smpso \<Rightarrow> nat \<Rightarrow> velocity_locals \<Rightarrow> nat \<Rightarrow> error option \<times> smpso" where
  "velocity_var s i l var =
     (case matrix_getitem (speed s) i (IntKey var) of
        Inl e \<Rightarrow> (Some e, s)
      | Inr v \<Rightarrow>
     (case list_getitem (variables (best_particle l)) var of
        Inl e \<Rightarrow> (Some e, s)
      | Inr bp \<Rightarrow>
     (case list_getitem (variables (particle l)) var of
        Inl e \<Rightarrow> (Some e, s)
      | Inr x \<Rightarrow>
     (case list_getitem (variables (best_global l)) var of
        Inl e \<Rightarrow> (Some e, s)
      | Inr bg \<Rightarrow>
     (case velocity_constriction s (raw_velocity s l v bp x bg) var of
        Inl e \<Rightarrow> (Some e, s)
      | Inr result \<Rightarrow>
     (case matrix_setitem (speed s) i (IntKey var) (np_store result) of
        Inl e \<Rightarrow> (Some e, s)
      | Inr m \<Rightarrow> (None, s\<lparr>speed := m\<rparr>)))))))"

fun velocity_vars :: "smpso \<Rightarrow> nat \<Rightarrow> velocity_locals \<Rightarrow> nat list \<Rightarrow> error option \<times> smpso" where
  "velocity_vars s i l [] = (None, s)"
| "velocity_vars s i l (var # rest) =
     (case velocity_var s i l var of
        (Some e, s') \<Rightarrow> (Some e, s')
      | (None, s') \<Rightarrow> velocity_vars s' i l rest)"

text \<open>One iteration of the outer loop, for particle \<open>i\<close> with the draws \<open>d\<close>.\<close>

definition velocity_particle :: "draws \<Rightarrow> smpso \<Rightarrow> nat \<Rightarrow> error option \<times> smpso" where
  "velocity_particle d s i =
     (case list_getitem (swarm s) i of
        Inl e \<Rightarrow> (Some e, s)
      | Inr a \<Rightarrow>
     (case dict_getitem (attributes (objects s ! a)) ''local_best'' of
        Inl e \<Rightarrow> (Some e, s)
      | Inr lb \<Rightarrow>
     (case select_global_best d s of
        Inl e \<Rightarrow> (Some e, s)
      | Inr bg \<Rightarrow>
     (case Random_random1 d of
        Inl e \<Rightarrow> (Some e, s)
      | Inr r1 \<Rightarrow>
     (case Random_random2 d of
        Inl e \<Rightarrow> (Some e, s)
      | Inr r2 \<Rightarrow>
     (case Random_uniform1 d (c1_min s) (c1_max s) of
        Inl e \<Rightarrow> (Some e, s)
      | Inr c1 \<Rightarrow>
     (case Random_uniform2 d (c2_min s) (c2_max s) of
        Inl e \<Rightarrow> (Some e, s)
      | Inr c2 \<Rightarrow>
          velocity_vars s i
            \<lparr> particle = copy (objects s ! a), best_particle = copy lb, best_global = bg,
              drawn_r1 = r1, drawn_r2 = r2, drawn_c1 = c1, drawn_c2 = c2 \<rparr>
            [0..<number_of_variables (problem s)])))))))"

fun velocity_particles :: "(nat \<Rightarrow> draws) \<Rightarrow> smpso \<Rightarrow> nat list \<Rightarrow> error option \<times> smpso" where
  "velocity_particles rnd s [] = (None, s)"
| "velocity_particles rnd s (i # rest) =
     (case velocity_particle (rnd i) s i of
        (Some e, s') \<Rightarrow> (Some e, s')
      | (None, s') \<Rightarrow> velocity_particles rnd s' rest)"

text \<open>
  \<^verbatim>\<open>update_velocity(self, swarm)\<close>; \<open>rnd i\<close> are the draws of particle \<open>i\<close>. The result is
  the error raised, if any, and the state the call leaves.
\<close>

definition update_velocity :: "(nat \<Rightarrow> draws) \<Rightarrow> smpso \<Rightarrow> ref list \<Rightarrow> error option \<times> smpso" where
  "update_velocity rnd s swarm_arg = velocity_particles rnd s [0..<swarm_size s]"

definition initialize_velocity :: "smpso \<Rightarrow> ref list \<Rightarrow> error option \<times> smpso" where
  "initialize_velocity s swarm_arg = (None, s)"

section \<open>The position update\<close>

text \<open>
  The body of the inner loop of \<^verbatim>\<open>update_position\<close> works on the variables of the
  particle and on \<^verbatim>\<open>self.speed\<close>; \<open>j\<close> is the loop variable it uses as subscript.
\<close>

type_synonym position_locals = "npfloat list \<times> npfloat list list"

definition lower_repair :: "smpso \<Rightarrow> nat \<Rightarrow> pykey \<Rightarrow> position_locals \<Rightarrow> error option \<times> position_locals" where
  "lower_repair s i j vm =
     (case list_getitem_key (fst vm) j of
        Inl e \<Rightarrow> (Some e, vm)
      | Inr x \<Rightarrow>
     (case list_getitem_key (lower_bound (problem s)) j of
        Inl e \<Rightarrow> (Some e, vm)
      | Inr lb \<Rightarrow>
          if flt x (Num lb) then
            (case list_setitem_key (fst vm) j (Num lb) of
               Inl e \<Rightarrow> (Some e, vm)
             | Inr vars' \<Rightarrow>
            (case matrix_getitem (snd vm) i j of
               Inl e \<Rightarrow> (Some e, vars', snd vm)
             | Inr v \<Rightarrow>
            (case matrix_setitem (snd vm) i j (fmul v (Num (change_velocity1 s))) of
               Inl e \<Rightarrow> (Some e, vars', snd vm)
             | Inr m' \<Rightarrow> (None, vars', m'))))
          else (None, vm)))"

definition upper_repair :: "smpso \<Rightarrow> nat \<Rightarrow> pykey \<Rightarrow> position_locals \<Rightarrow> error option \<times> position_locals" where
  "upper_repair s i j vm =
     (case list_getitem_key (fst vm) j of
        Inl e \<Rightarrow> (Some e, vm)
      | Inr x \<Rightarrow>
     (case list_getitem_key (upper_bound (problem s)) j of
        Inl e \<Rightarrow> (Some e, vm)
      | Inr ub \<Rightarrow>
          if fgt x (Num ub) then
            (case list_setitem_key (fst vm) j (Num ub) of
               Inl e \<Rightarrow> (Some e, vm)
             | Inr vars' \<Rightarrow>
            (case matrix_getitem (snd vm) i j of
               Inl e \<Rightarrow> (Some e, vars', snd vm)
             | Inr v \<Rightarrow>
            (case matrix_setitem (snd vm) i j (fmul v (Num (change_velocity2 s))) of
               Inl e \<Rightarrow> (Some e, vars', snd vm)
             | Inr m' \<Rightarrow> (None, vars', m'))))
          else (None, vm)))"

definition position_var :: "smpso \<Rightarrow> nat \<Rightarrow> pykey \<Rightarrow> position_locals \<Rightarrow> error option \<times> position_locals" where
  "position_var s i j vm =
     (case list_getitem_key (fst vm) j of
        Inl e \<Rightarrow> (Some e, vm)
      | Inr x \<Rightarrow>
     (case matrix_getitem (snd vm) i j of
        Inl e \<Rightarrow> (Some e, vm)
      | Inr v \<Rightarrow>
     (case list_setitem_key (fst vm) j (fadd x v) of
        Inl e \<Rightarrow> (Some e, vm)
      | Inr vars' \<Rightarrow>
     (case lower_repair s i j (vars', snd vm) of
        (Some e, vm') \<Rightarrow> (Some e, vm')
      | (None, vm') \<Rightarrow> upper_repair s i j vm'))))"

text \<open>
  \<^verbatim>\<open>for j in particle.variables\<close>: at the \<open>k\<close>-th iteration the loop variable is the
  \<open>k\<close>-th element of the list, a float, and the body uses this float as the subscript.
\<close>

fun position_vars :: "smpso \<Rightarrow> nat \<Rightarrow> position_locals \<Rightarrow> nat list \<Rightarrow> error option \<times> position_locals" where
  "position_vars s i vm [] = (None, vm)"
| "position_vars s i vm (k # rest) =
     (case position_var s i (FloatKey (fst vm ! k)) vm of
        (Some e, vm') \<Rightarrow> (Some e, vm')
      | (None, vm') \<Rightarrow> position_vars s i vm' rest)"

definition position_particle :: "smpso \<Rightarrow> nat \<Rightarrow> error option \<times> smpso" where
  "position_particle s i =
     (case list_getitem (swarm s) i of
        Inl e \<Rightarrow> (Some e, s)
      | Inr a \<Rightarrow>
          (let p = objects s ! a in
           (case position_vars s i (variables p, speed s) [0..<length (variables p)] of
              (err, vars', m') \<Rightarrow>
                (err, s\<lparr>objects := (objects s)[a := set_variables p vars'], speed := m'\<rparr>))))"

fun position_particles :: "smpso \<Rightarrow> nat list \<Rightarrow> error option \<times> smpso" where
  "position_particles s [] = (None, s)"
| "position_particles s (i # rest) =
     (case position_particle s i of
        (Some e, s') \<Rightarrow> (Some e, s')
      | (None, s') \<Rightarrow> position_particles s' rest)"

definition update_position :: "smpso \<Rightarrow> ref list \<Rightarrow> error option \<times> smpso" where
  "update_position s swarm_arg = position_particles s [0..<swarm_size s]"

section \<open>Personal bests\<close>

text \<open>
  \<^verbatim>\<open>initialize_particle_best\<close>: every particle of \<^verbatim>\<open>self.swarm\<close> gets a copy of itself
  under \<^verbatim>\<open>local_best\<close>.
\<close>

fun particle_best_init :: "solution list \<Rightarrow> ref list \<Rightarrow> solution list" where
  "particle_best_init objs [] = objs"
| "particle_best_init objs (a # rest) =
     particle_best_init (objs[a := set_attribute (objs ! a) ''local_best'' (copy (objs ! a))]) rest"

definition initialize_particle_best :: "smpso \<Rightarrow> ref list \<Rightarrow> error option \<times> smpso" where
  "initialize_particle_best s swarm_arg =
     (None, s\<lparr>objects := particle_best_init (objects s) (swarm s)\<rparr>)"

text \<open>
  One iteration of \<^verbatim>\<open>update_particle_best\<close>. The test \<^verbatim>\<open>flag is not 1\<close> compares
  identities; CPython keeps one object for each small integer, so for the results of
  the comparator it is \<open>flag \<noteq> 1\<close>. The assignment goes through the parameter
  \<^verbatim>\<open>swarm\<close>, not \<^verbatim>\<open>self.swarm\<close>.
\<close>

definition particle_best :: "smpso \<Rightarrow> ref list \<Rightarrow> nat \<Rightarrow> error option \<times> smpso" where
  "particle_best s swarm_arg i =
     (case list_getitem (swarm s) i of
        Inl e \<Rightarrow> (Some e, s)
      | Inr a \<Rightarrow>
     (case getattr_attribute (objects s ! a) of
        Inl e \<Rightarrow> (Some e, s)
      | Inr d \<Rightarrow>
     (case dict_getitem d ''local_best'' of
        Inl e \<Rightarrow> (Some e, s)
      | Inr lb \<Rightarrow>
          (let flag = dominance_compare (objects s ! a) lb in
           if flag \<noteq> 1 then
             (case list_getitem swarm_arg i of
                Inl e \<Rightarrow> (Some e, s)
              | Inr b \<Rightarrow>
                  (None, s\<lparr>objects := (objects s)
                     [b := set_attribute (objects s ! b) ''local_best'' (copy (objects s ! a))]\<rparr>))
           else (None, s)))))"

fun particle_bests :: "smpso \<Rightarrow> ref list \<Rightarrow> nat list \<Rightarrow> error option \<times> smpso" where
  "particle_bests s swarm_arg [] = (None, s)"
| "particle_bests s swarm_arg (i # rest) =
     (case particle_best s swarm_arg i of
        (Some e, s') \<Rightarrow> (Some e, s')
      | (None, s') \<Rightarrow> particle_bests s' swarm_arg rest)"

definition update_particle_best :: "smpso \<Rightarrow> ref list \<Rightarrow> error option \<times> smpso" where
  "update_particle_best s swarm_arg = particle_bests s swarm_arg [0..<swarm_size s]"

section \<open>Perturbation\<close>

fun perturb :: "smpso \<Rightarrow> nat \<Rightarrow> ref list \<Rightarrow> error option \<times> smpso" where
  "perturb s k [] = (None, s)"
| "perturb s k (a # rest) =
     (case mutation s k (objects s ! a) of
        Inl e \<Rightarrow> (Some e, s)
      | Inr p' \<Rightarrow> perturb (s\<lparr>objects := (objects s)[a := p']\<rparr>) (Suc k) rest)"

definition perturbation :: "smpso \<Rightarrow> ref list \<Rightarrow> error option \<times> smpso" where
  "perturbation s swarm_arg = perturb s 0 (swarm s)"

section \<open>The Leaders archive\<close>

text \<open>The position of the first lowest score, and a list without the element at a position.\<close>

fun first_lowest :: "real list \<Rightarrow> nat" where
  "first_lowest [] = 0"
| "first_lowest [x] = 0"
| "first_lowest (x # y # ys) =
     (let k = first_lowest (y # ys) in if x \<le> (y # ys) ! k then 0 else Suc k)"

definition drop_at :: "nat \<Rightarrow> 'a list \<Rightarrow> 'a list" where
  "drop_at k xs = take k xs @ drop (Suc k) xs"

text \<open>
  Modelled from the spec: \<^verbatim>\<open>BoundedArchive.add\<close> is not among the sources. By the spec,
  \<^verbatim>\<open>add(solution)\<close> deep-copies the solution and compares the copy with every member by
  the dominance comparator. If a member dominates the candidate, it is rejected. If the
  candidate dominates members, they are all removed and the candidate is inserted.
  Otherwise the candidate is inserted and, if the capacity is exceeded, the member with
  the lowest density score (the first of them) is evicted. The copy is a new object of
  the store; when the candidate is rejected it stays there, referenced by nothing.
\<close>

definition archive_add :: "solution list \<Rightarrow> archive \<Rightarrow> ref \<Rightarrow> solution list \<times> archive" where
  "archive_add objs ar a =
     (let candidate = objs ! a;
          objs' = fst (new_object objs candidate);
          c = snd (new_object objs candidate);
          members = solution_list ar
      in
        if list_ex (\<lambda>m. dominance_compare (objs ! m) candidate = - 1) members
        then (objs', ar)
        else if list_ex (\<lambda>m. dominance_compare candidate (objs ! m) = - 1) members
        then (objs', ar\<lparr>solution_list :=
                filter (\<lambda>m. dominance_compare candidate (objs ! m) \<noteq> - 1) members @ [c]\<rparr>)
        else
          (let ms = members @ [c];
               scores = map (density ar (map (\<lambda>m. objs' ! m) ms)) [0..<length ms]
           in
             if maximum_size ar < length ms
             then (objs', ar\<lparr>solution_list := drop_at (first_lowest scores) ms\<rparr>)
             else (objs', ar\<lparr>solution_list := ms\<rparr>)))"

text \<open>
  \<^verbatim>\<open>initialize_global_best\<close> hands each particle of \<^verbatim>\<open>self.swarm\<close> itself to \<^verbatim>\<open>add\<close>;
  \<^verbatim>\<open>update_global_best\<close> hands a copy of it, a new object.
\<close>

fun global_best_init :: "solution list \<times> archive \<Rightarrow> ref list \<Rightarrow> solution list \<times> archive" where
  "global_best_init oa [] = oa"
| "global_best_init oa (a # rest) = global_best_init (archive_add (fst oa) (snd oa) a) rest"

definition initialize_global_best :: "smpso \<Rightarrow> ref list \<Rightarrow> error option \<times> smpso" where
  "initialize_global_best s swarm_arg =
     (let oa = global_best_init (objects s, leaders s) (swarm s)
      in (None, s\<lparr>objects := fst oa, leaders := snd oa\<rparr>))"

fun global_best_update :: "solution list \<times> archive \<Rightarrow> ref list \<Rightarrow> solution list \<times> archive" where
  "global_best_update oa [] = oa"
| "global_best_update oa (a # rest) =
     (let fresh = new_object (fst oa) (copy (fst oa ! a))
      in global_best_update (archive_add (fst fresh) (snd oa) (snd fresh)) rest)"

definition update_global_best :: "smpso \<Rightarrow> ref list \<Rightarrow> error option \<times> smpso" where
  "update_global_best s swarm_arg =
     (let oa = global_best_update (objects s, leaders s) (swarm s)
      in (None, s\<lparr>objects := fst oa, leaders := snd oa\<rparr>))"

section \<open>Independence of the archive from the swarm\<close>

text \<open>
  The references of the swarm and of the archive point into the object store, and no
  member of the archive is an object of the swarm.
\<close>

definition archive_separate :: "smpso \<Rightarrow> bool" where
  "archive_separate s =
     (list_all (\<lambda>p. p < length (objects s)) (swarm s) \<and>
      list_all (\<lambda>m. m < length (objects s) \<and> m \<notin> set (swarm s)) (solution_list (leaders s)))"

text \<open>
  Every member of the archive of \<open>s'\<close> was a member in \<open>s\<close> already, or is an object
  created since with the content of a particle of the swarm.
\<close>

definition members_are_copies :: "smpso \<Rightarrow> smpso \<Rightarrow> bool" where
  "members_are_copies s s' =
     list_all
       (\<lambda>m. m \<in> set (solution_list (leaders s)) \<or>
            (length (objects s) \<le> m \<and> list_ex (\<lambda>p. objects s' ! m = objects s ! p) (swarm s)))
       (solution_list (leaders s'))"

text \<open>
  What the two loops over the swarm keep true of the object store and the archive they
  work on: the objects of the store \<open>objs0\<close> they started from are unchanged, and every
  member of the archive is an object of the store that was a member at the start
  (\<open>members0\<close>) or was created since with the content of a particle of the swarm \<open>sw\<close>.
\<close>

definition archive_inv :: "solution list \<Rightarrow> ref list \<Rightarrow> ref list \<Rightarrow> solution list \<times> archive \<Rightarrow> bool" where
  "archive_inv objs0 members0 sw oa =
     (length objs0 \<le> length (fst oa) \<and> take (length objs0) (fst oa) = objs0 \<and>
      (\<forall>m \<in> set (solution_list (snd oa)).
         m < length (fst oa) \<and>
         (m \<in> set members0 \<or> (length objs0 \<le> m \<and> (\<exists>p \<in> set sw. fst oa ! m = objs0 ! p)))))"

section \<open>Example states\<close>

text \<open>
  One variable in \<open>[0, 1]\<close>, so \<open>delta_max = [1/2]\<close>; one particle at \<open>1/2\<close> whose personal
  best it dominates; two leaders; velocity zero. The comparator of the archive stands
  for its density comparator; here it orders by the first objective.
\<close>

definition example_problem :: float_problem where
  "example_problem = \<lparr> number_of_variables = 1, lower_bound = [0], upper_bound = [1] \<rparr>"

definition first_objective_comparator :: "solution \<Rightarrow> solution \<Rightarrow> int" where
  "first_objective_comparator a b =
     (case (objectives a, objectives b) of
        (x # xs, y # ys) \<Rightarrow> (if x < y then - 1 else if y < x then 1 else 0)
      | _ \<Rightarrow> 0)"

definition example_archive :: "ref list \<Rightarrow> archive" where
  "example_archive ms =
     \<lparr> solution_list = ms, maximum_size = 3, comparator = first_objective_comparator,
       density = (\<lambda>ms k. 0) \<rparr>"

definition example_best :: solution where
  "example_best = Solution [Num (2/5)] [2, 2] []"

definition example_particle :: solution where
  "example_particle = Solution [Num (1/2)] [1, 1] [(''local_best'', example_best)]"

definition example_leader1 :: solution where
  "example_leader1 = Solution [Num (1/4)] [0, 3] []"

definition example_leader2 :: solution where
  "example_leader2 = Solution [Num (3/4)] [3, 0] []"

definition example_state :: "ref list \<Rightarrow> npfloat \<Rightarrow> smpso" where
  "example_state ms v =
     \<lparr> objects = [example_particle, example_leader1, example_leader2], swarm = [0],
       problem = example_problem, swarm_size = 1, max_evaluations = 100,
       mutation = (\<lambda>k p. Inr p), leaders = example_archive ms, evaluations = 1,
       c1_min = 1.5, c1_max = 2.5, c2_min = 1.5, c2_max = 2.5,
       min_weight = 0.1, max_weight = 0.1,
       change_velocity1 = - 1, change_velocity2 = - 1,
       speed = [[v]], delta_max = [1/2], delta_min = [- (1/2)] \<rparr>"

section \<open>Properties\<close>

subsection \<open>The example states\<close>

lemmas example_defs =
  example_state_def example_archive_def example_problem_def example_particle_def
  example_best_def example_leader1_def example_leader2_def first_objective_comparator_def

text \<open>The example state is one the constructor builds, once a swarm is in place.\<close>

lemma init_example:
  "init example_problem 1 100 (\<lambda>k p. Inr p) (example_archive []) =
     Inr ((example_state [] (Num 0)) \<lparr> objects := [], swarm := [], evaluations := 0 \<rparr>)"
  by (simp add: init_def example_problem_def example_state_def list_getitem_def)

subsection \<open>Claim C1: the position update\<close>

lemma position_var_float: "position_var s i (FloatKey f) vm = (Some TypeError, vm)"
  by (simp add: position_var_def)

lemma set_variables_same: "set_variables p (variables p) = p"
  by (cases p) (simp add: set_variables_def)

lemma position_vars_float:
  "position_vars s i vm (k # rest) = (Some TypeError, vm)"
  by (simp add: position_var_float)

text \<open>
  Whenever there is a first particle with at least one variable, \<^verbatim>\<open>update_position\<close>
  raises TypeError and changes nothing.
\<close>

lemma update_position_TypeError:
  assumes "0 < swarm_size s" and "swarm s \<noteq> []"
    and "variables (objects s ! hd (swarm s)) \<noteq> []"
  shows "update_position s swarm_arg = (Some TypeError, s)"
proof -
  obtain a rest where sw: "swarm s = a # rest"
    using assms(2) by (cases "swarm s") auto
  obtain v vs where vars: "variables (objects s ! a) = v # vs"
    using assms(3) sw by (cases "variables (objects s ! a)") auto
  have idx: "[0..<Suc (length vs)] = 0 # [Suc 0..<Suc (length vs)]"
    by (rule upt_conv_Cons) simp
  have loop: "position_vars s 0 (v # vs, speed s) [0..<Suc (length vs)] =
      (Some TypeError, v # vs, speed s)"
    unfolding idx by (rule position_vars_float)
  have same: "set_variables (objects s ! a) (v # vs) = objects s ! a"
    using set_variables_same [of "objects s ! a"] by (simp add: vars)
  have "position_particle s 0 = (Some TypeError, s)"
    by (simp add: position_particle_def list_getitem_def sw vars loop same del: upt_Suc)
  moreover have "[0..<swarm_size s] = 0 # [Suc 0..<swarm_size s]"
    using assms(1) by (rule upt_conv_Cons)
  ultimately show ?thesis
    by (simp add: update_position_def)
qed

text \<open>
  With the position \<open>j\<close> as subscript, the body of the loop would add the velocity and
  leave the variable within its bounds.
\<close>

lemma position_var_index:
  assumes j: "j < length vars" "j < length (lower_bound (problem s))"
      "j < length (upper_bound (problem s))"
    and i: "i < length m" "j < length (m ! i)"
    and x: "vars ! j = Num x" and v: "m ! i ! j = Num v"
    and order: "lower_bound (problem s) ! j \<le> upper_bound (problem s) ! j"
  shows "\<exists>vars' m' y. position_var s i (IntKey j) (vars, m) = (None, vars', m') \<and>
           vars' ! j = Num y \<and>
           lower_bound (problem s) ! j \<le> y \<and> y \<le> upper_bound (problem s) ! j \<and>
           y = max (lower_bound (problem s) ! j) (min (upper_bound (problem s) ! j) (x + v))"
  using assms
  by (auto simp add: position_var_def lower_repair_def upper_repair_def matrix_getitem_def
      matrix_setitem_def list_getitem_def list_setitem_def)

text \<open>
  Claim C1 fails on the code. The loop variable of \<^verbatim>\<open>for j in particle.variables\<close> is an
  element of the list, a float, and the body uses it as the subscript, which raises
  TypeError at \<^verbatim>\<open>particle.variables[j]\<close>. In the example state with velocity \<open>1/10\<close> the
  particle stays at \<open>1/2\<close> and nothing is added, clamped or reversed. The same happens
  in every state with a particle that has a variable (lemma \<open>update_position_TypeError\<close>).
\<close>

theorem update_position_raises:
  "variables (objects (example_state [1, 2] (Num (1/10))) ! 0) = [Num (1/2)] \<and>
   update_position (example_state [1, 2] (Num (1/10))) [0] =
     (Some TypeError, example_state [1, 2] (Num (1/10)))"
  by (simp add: update_position_def position_particle_def list_getitem_def position_var_float
      example_state_def example_particle_def set_variables_def)

subsection \<open>Claim C2: velocity clamping\<close>

lemma velocity_constriction_cases:
  assumes "j < length (delta_max s)" and "j < length (delta_min s)"
  shows "velocity_constriction s (Num v) j =
     Inr (if v < delta_min s ! j then Some (delta_min s ! j)
          else if delta_max s ! j < v then Some (delta_max s ! j)
          else None)"
  using assms by (simp add: velocity_constriction_def list_getitem_def)

text \<open>
  Claim C2 fails on the code. In the example state \<open>delta_min = [-1/2]\<close> and
  \<open>delta_max = [1/2]\<close>; the raw velocity 0 lies between them, and
  \<^verbatim>\<open>__velocity_constriction\<close> returns \<^verbatim>\<open>None\<close> for it, not 0.
\<close>

theorem velocity_constriction_in_range:
  "delta_min (example_state [1, 2] (Num 0)) = [- (1 / 2)] \<and>
   delta_max (example_state [1, 2] (Num 0)) = [1 / 2] \<and>
   velocity_constriction (example_state [1, 2] (Num 0)) (Num 0) 0 = Inr None"
  by (simp add: velocity_constriction_def example_state_def list_getitem_def)

subsection \<open>Claim C3: the constriction coefficient\<close>

lemma constriction_denominator:
  assumes "4 < (rho::real)"
  shows "0 < rho ^ 2 - 4 * rho" and "2 - rho - sqrt (rho ^ 2 - 4 * rho) < - 2"
proof -
  have "rho ^ 2 - 4 * rho = rho * (rho - 4)"
    by (simp add: power2_eq_square algebra_simps)
  moreover have "0 < rho * (rho - 4)"
    using assms by (intro mult_pos_pos) simp_all
  ultimately show pos: "0 < rho ^ 2 - 4 * rho"
    by simp
  have "0 \<le> sqrt (rho ^ 2 - 4 * rho)"
    using pos by simp
  then show "2 - rho - sqrt (rho ^ 2 - 4 * rho) < - 2"
    using assms by linarith
qed

lemma sqrt_41_hundredths:
  "64 / 100 < sqrt (41 / 100 :: real)" "sqrt (41 / 100 :: real) < 641 / 1000"
proof -
  show "64 / 100 < sqrt (41 / 100 :: real)"
    by (rule real_less_rsqrt) (simp add: power2_eq_square)
  show "sqrt (41 / 100 :: real) < 641 / 1000"
    by (rule real_less_lsqrt) (simp_all add: power2_eq_square)
qed

lemma constriction_at_41_tenths:
  assumes "c1 + c2 = (41 / 10 :: real)"
  shows "- 73 / 100 < constriction_coefficient c1 c2"
    and "constriction_coefficient c1 c2 < - 729 / 1000"
proof -
  let ?d = "2 - 41 / 10 - sqrt (41 / 100 :: real)"
  have rad: "(41 / 10 :: real) ^ 2 - 4 * (41 / 10) = 41 / 100"
    by (simp add: power2_eq_square)
  have "constriction_coefficient c1 c2 = 2 / (2 - 41 / 10 - sqrt ((41 / 10) ^ 2 - 4 * (41 / 10)))"
    unfolding constriction_coefficient_def Let_def assms by simp
  then have cc: "constriction_coefficient c1 c2 = 2 / ?d"
    unfolding rad .
  have above: "- 2741 / 1000 < ?d" and below: "?d < - 274 / 100"
    using sqrt_41_hundredths by simp_all
  have neg: "?d < 0"
    using below by simp
  show "- 73 / 100 < constriction_coefficient c1 c2"
    unfolding cc using below neg by (simp add: field_simps)
  show "constriction_coefficient c1 c2 < - 729 / 1000"
    unfolding cc using above neg by (simp add: field_simps)
qed

lemma constriction_above_4:
  assumes "4 < c1 + c2"
  shows "- 1 < constriction_coefficient c1 c2" and "constriction_coefficient c1 c2 < 0"
proof -
  let ?d = "2 - (c1 + c2) - sqrt ((c1 + c2) ^ 2 - 4 * (c1 + c2))"
  have cc: "constriction_coefficient c1 c2 = 2 / ?d"
    using assms by (simp add: constriction_coefficient_def Let_def)
  have d: "?d < - 2"
    using constriction_denominator(2) [OF assms] .
  show "- 1 < constriction_coefficient c1 c2"
    unfolding cc using d by (simp add: field_simps)
  show "constriction_coefficient c1 c2 < 0"
    unfolding cc using d by (simp add: field_simps)
qed

text \<open>
  Claim C3, as amended. The constriction coefficient is exactly 1 whenever
  \<open>c1 + c2 \<le> 4\<close>. For \<open>c1 + c2 = 4.1\<close> the argument of the square root is positive and the
  denominator is not zero, so the value is a finite real; it lies strictly between
  \<open>-0.73\<close> and \<open>-0.729\<close>: it is negative, not greater than 1.
\<close>

theorem constriction_coefficient_amended:
  "(c1 + c2 \<le> 4 \<longrightarrow> constriction_coefficient c1 c2 = 1) \<and>
   (c1 + c2 = 41 / 10 \<longrightarrow>
      0 < (c1 + c2) ^ 2 - 4 * (c1 + c2) \<and>
      2 - (c1 + c2) - sqrt ((c1 + c2) ^ 2 - 4 * (c1 + c2)) \<noteq> 0 \<and>
      - 73 / 100 < constriction_coefficient c1 c2 \<and>
      constriction_coefficient c1 c2 < - 729 / 1000)"
proof (intro conjI impI)
  assume "c1 + c2 \<le> 4"
  then show "constriction_coefficient c1 c2 = 1"
    by (simp add: constriction_coefficient_def)
next
  assume rho: "c1 + c2 = 41 / 10"
  then have above: "4 < c1 + c2"
    by simp
  show "0 < (c1 + c2) ^ 2 - 4 * (c1 + c2)"
    using constriction_denominator(1) [OF above] .
  show "2 - (c1 + c2) - sqrt ((c1 + c2) ^ 2 - 4 * (c1 + c2)) \<noteq> 0"
    using constriction_denominator(2) [OF above] by simp
  show "- 73 / 100 < constriction_coefficient c1 c2"
    using constriction_at_41_tenths(1) [OF rho] .
  show "constriction_coefficient c1 c2 < - 729 / 1000"
    using constriction_at_41_tenths(2) [OF rho] .
qed

theorem constriction_coefficient_amended_witness:
  "constriction_coefficient 1 1 = 1 \<and>
   - 73 / 100 < constriction_coefficient 2 (21 / 10) \<and>
   constriction_coefficient 2 (21 / 10) < - 729 / 1000"
  using constriction_coefficient_amended [of 1 1]
    constriction_coefficient_amended [of 2 "21 / 10"]
  by simp

text \<open>
  The claim C3 as stated fails: with \<open>c1 = 2\<close> and \<open>c2 = 2.1\<close>, so \<open>c1 + c2 = 4.1\<close>, the
  coefficient is negative, hence not greater than 1.
\<close>

theorem constriction_coefficient_counterexample:
  "constriction_coefficient 2 (21 / 10) < 0 \<and> \<not> 1 < constriction_coefficient 2 (21 / 10)"
proof -
  have "(2::real) + 21 / 10 = 41 / 10"
    by simp
  then have "constriction_coefficient 2 (21 / 10) < - 729 / 1000"
    by (rule constriction_at_41_tenths(2))
  then show ?thesis
    by simp
qed

subsection \<open>Claim C4: the velocity update\<close>

text \<open>
  Claim C4 fails on the code. In the example state the calls as the source writes them
  raise TypeError before any velocity is written. With draws that succeed
  (\<open>r1 = r2 = 1/2\<close>, \<open>c1 = c2 = 2\<close>, so the coefficient is 1, and leader 1 is selected) the
  raw velocity is \<open>-7/20\<close>, inside \<open>[-1/2, 1/2]\<close>; the velocity stored is nan, not
  \<open>-7/20\<close>, since \<^verbatim>\<open>__velocity_constriction\<close> returns \<^verbatim>\<open>None\<close> for it.
\<close>

theorem update_velocity_diverges:
  "update_velocity (\<lambda>i. class_calls) (example_state [1, 2] (Num 0)) [0] =
     (Some TypeError, example_state [1, 2] (Num 0)) \<and>
   raw_velocity (example_state [1, 2] (Num 0))
     \<lparr> particle = example_particle, best_particle = example_best, best_global = example_leader1,
       drawn_r1 = 1/2, drawn_r2 = 1/2, drawn_c1 = 2, drawn_c2 = 2 \<rparr>
     (Num 0) (Num (2/5)) (Num (1/2)) (Num (1/4)) = Num (- (7/20)) \<and>
   update_velocity (\<lambda>i. instance_calls [0, 1] (1/2) (1/2) 2 2) (example_state [1, 2] (Num 0)) [0] =
     (None, example_state [1, 2] NaN)"
proof (intro conjI)
  show "update_velocity (\<lambda>i. class_calls) (example_state [1, 2] (Num 0)) [0] =
     (Some TypeError, example_state [1, 2] (Num 0))"
    by (simp add: update_velocity_def velocity_particle_def select_global_best_def class_calls_def
       list_getitem_def dict_getitem_def example_state_def example_particle_def)
  show "raw_velocity (example_state [1, 2] (Num 0))
     \<lparr> particle = example_particle, best_particle = example_best, best_global = example_leader1,
       drawn_r1 = 1/2, drawn_r2 = 1/2, drawn_c1 = 2, drawn_c2 = 2 \<rparr>
     (Num 0) (Num (2/5)) (Num (1/2)) (Num (1/4)) = Num (- (7/20))"
    by (simp add: raw_velocity_def constriction_coefficient_def example_state_def)
  show "update_velocity (\<lambda>i. instance_calls [0, 1] (1/2) (1/2) 2 2) (example_state [1, 2] (Num 0)) [0] =
     (None, example_state [1, 2] NaN)"
    by (simp add: update_velocity_def velocity_particle_def select_global_best_def instance_calls_def
       py_sample_def velocity_var_def raw_velocity_def velocity_constriction_def
       constriction_coefficient_def matrix_getitem_def matrix_setitem_def copy_def
       list_getitem_def list_setitem_def dict_getitem_def example_defs)
qed

subsection \<open>Claim C5: the personal-best update\<close>

text \<open>
  Claim C5 fails on the code. In the example state the particle dominates its personal
  best (the comparison is -1), so the claim has the personal best replaced;
  \<^verbatim>\<open>update_particle_best\<close> raises AttributeError at \<^verbatim>\<open>self.swarm[i].attribute\<close> and
  replaces nothing.
\<close>

theorem update_particle_best_raises:
  "dominance_compare example_particle example_best = - 1 \<and>
   update_particle_best (example_state [1, 2] (Num 0)) [0] =
     (Some AttributeError, example_state [1, 2] (Num 0))"
  by (simp add: update_particle_best_def particle_best_def list_getitem_def getattr_attribute_def
      dominance_compare_def dominates_def example_defs)

subsection \<open>Claim C6: stopping condition and result\<close>

lemma stopping_condition:
  "is_stopping_condition_reached s = (max_evaluations s \<le> evaluations s)"
  by (simp add: is_stopping_condition_reached_def)

text \<open>
  Claim C6 fails on the code. The stopping condition is as claimed (lemma
  \<open>stopping_condition\<close>), but \<^verbatim>\<open>get_result\<close> returns \<^verbatim>\<open>None\<close>, here for an archive that
  holds two solutions.
\<close>

theorem get_result_is_None:
  "solution_list (leaders (example_state [1, 2] (Num 0))) = [1, 2] \<and>
   get_result (example_state [1, 2] (Num 0)) = None"
  by (simp add: get_result_def example_state_def example_archive_def)

subsection \<open>Claim C7: global-best selection\<close>

text \<open>
  What the selection makes of the outcome of the draw: an error is passed on, and of two
  solutions drawn a copy of the first is returned if the archive's comparator gives a
  value below 1 for them, and a copy of the second otherwise.
\<close>

lemma select_global_best_error:
  "Random_sample d (solution_list (leaders s)) 2 = Inl e \<Longrightarrow> select_global_best d s = Inl e"
  by (simp add: select_global_best_def)

lemma select_global_best_pair:
  "Random_sample d (solution_list (leaders s)) 2 = Inr [p0, p1] \<Longrightarrow>
   select_global_best d s =
     Inr (copy (objects s ! (if comparator (leaders s) (objects s ! p0) (objects s ! p1) < 1
                             then p0 else p1)))"
  by (simp add: select_global_best_def list_getitem_def)

lemma instance_sample_pair:
  assumes "i < length xs" and "j < length xs" and "i \<noteq> j"
  shows "Random_sample (instance_calls [i, j] r1 r2 c1 c2) xs 2 = Inr [xs ! i, xs ! j]"
proof -
  have "2 \<le> length xs"
    using assms by (cases xs; cases "tl xs") auto
  then show ?thesis
    by (simp add: instance_calls_def py_sample_def)
qed

lemma instance_sample_small:
  "length xs < 2 \<Longrightarrow> Random_sample (instance_calls pick r1 r2 c1 c2) xs 2 = Inl ValueError"
  by (simp add: instance_calls_def py_sample_def)

lemma select_global_best_class_calls: "select_global_best class_calls s = Inl TypeError"
  by (simp add: select_global_best_def class_calls_def)

text \<open>
  Claim C7 fails on the code. The draw is written \<^verbatim>\<open>Random.sample(...)\<close> on the class,
  so it raises TypeError and the selection raises with it: in the example state, whose
  archive holds two members, no member is drawn and no copy is returned, and with
  exactly one member the call fails with the same error instead of selecting that
  member. It is so for every archive (lemma \<open>select_global_best_class_calls\<close>).
\<close>

theorem select_global_best_raises:
  "solution_list (leaders (example_state [1, 2] (Num 0))) = [1, 2] \<and>
   select_global_best class_calls (example_state [1, 2] (Num 0)) = Inl TypeError \<and>
   solution_list (leaders (example_state [1] (Num 0))) = [1] \<and>
   select_global_best class_calls (example_state [1] (Num 0)) = Inl TypeError"
  by (simp add: select_global_best_def class_calls_def example_state_def example_archive_def)

subsection \<open>Claim C8: the archive holds copies\<close>

lemma set_drop_at: "set (drop_at k xs) \<subseteq> set xs"
  unfolding drop_at_def using set_take_subset [of k xs] set_drop_subset [of "Suc k" xs] by auto

lemma archive_add_objects: "fst (archive_add objs ar a) = objs @ [objs ! a]"
  by (simp add: archive_add_def new_object_def Let_def)

lemma archive_add_members:
  "set (solution_list (snd (archive_add objs ar a))) \<subseteq> insert (length objs) (set (solution_list ar))"
  using set_drop_at [of _ "solution_list ar @ [length objs]"]
  by (auto simp add: archive_add_def new_object_def Let_def)

lemma archive_inv_append:
  assumes "archive_inv objs0 members0 sw (objs, ar)"
  shows "archive_inv objs0 members0 sw (objs @ [x], ar)"
  using assms by (auto simp add: archive_inv_def nth_append)

lemma archive_add_inv:
  assumes inv: "archive_inv objs0 members0 sw (objs, ar)"
    and a: "a < length objs" and content: "\<exists>p \<in> set sw. objs ! a = objs0 ! p"
  shows "archive_inv objs0 members0 sw (archive_add objs ar a)"
proof -
  let ?oa = "archive_add objs ar a"
  have objs': "fst ?oa = objs @ [objs ! a]"
    by (rule archive_add_objects)
  have len: "length objs0 \<le> length objs" and pre: "take (length objs0) objs = objs0"
    using inv by (simp_all add: archive_inv_def)
  have old: "\<And>m. m \<in> set (solution_list ar) \<Longrightarrow>
      m < length objs \<and> (m \<in> set members0 \<or> (length objs0 \<le> m \<and> (\<exists>p \<in> set sw. objs ! m = objs0 ! p)))"
    using inv by (simp add: archive_inv_def)
  have "m < length (fst ?oa) \<and>
      (m \<in> set members0 \<or> (length objs0 \<le> m \<and> (\<exists>p \<in> set sw. fst ?oa ! m = objs0 ! p)))"
    if m: "m \<in> set (solution_list (snd ?oa))" for m
  proof (cases "m = length objs")
    case True
    then show ?thesis
      using len content by (simp add: objs')
  next
    case False
    then have "m \<in> set (solution_list ar)"
      using m archive_add_members [of objs ar a] by auto
    then show ?thesis
      using old [of m] by (auto simp add: objs' nth_append)
  qed
  then show ?thesis
    using len pre by (simp add: archive_inv_def objs')
qed

lemma global_best_init_inv:
  assumes "archive_inv objs0 members0 sw oa"
    and "\<forall>a \<in> set todo. a \<in> set sw \<and> a < length objs0"
  shows "archive_inv objs0 members0 sw (global_best_init oa todo)"
  using assms
proof (induction todo arbitrary: oa)
  case Nil
  then show ?case by simp
next
  case (Cons a rest)
  obtain objs ar where oa: "oa = (objs, ar)"
    by (cases oa)
  have a: "a \<in> set sw" "a < length objs0"
    using Cons.prems(2) by simp_all
  have len: "length objs0 \<le> length objs" and pre: "take (length objs0) objs = objs0"
    using Cons.prems(1) by (simp_all add: archive_inv_def oa)
  have "objs ! a = take (length objs0) objs ! a"
    using a(2) by simp
  then have same: "objs ! a = objs0 ! a"
    by (simp add: pre)
  have "archive_inv objs0 members0 sw (archive_add objs ar a)"
  proof (rule archive_add_inv)
    show "archive_inv objs0 members0 sw (objs, ar)"
      using Cons.prems(1) by (simp add: oa)
    show "a < length objs"
      using a(2) len by simp
    show "\<exists>p \<in> set sw. objs ! a = objs0 ! p"
      using a(1) same by blast
  qed
  then have "archive_inv objs0 members0 sw (global_best_init (archive_add objs ar a) rest)"
    using Cons.prems(2) by (intro Cons.IH) simp_all
  then show ?case
    by (simp add: oa)
qed

lemma global_best_update_inv:
  assumes "archive_inv objs0 members0 sw oa"
    and "\<forall>a \<in> set todo. a \<in> set sw \<and> a < length objs0"
  shows "archive_inv objs0 members0 sw (global_best_update oa todo)"
  using assms
proof (induction todo arbitrary: oa)
  case Nil
  then show ?case by simp
next
  case (Cons a rest)
  obtain objs ar where oa: "oa = (objs, ar)"
    by (cases oa)
  have a: "a \<in> set sw" "a < length objs0"
    using Cons.prems(2) by simp_all
  have len: "length objs0 \<le> length objs" and pre: "take (length objs0) objs = objs0"
    using Cons.prems(1) by (simp_all add: archive_inv_def oa)
  have "objs ! a = take (length objs0) objs ! a"
    using a(2) by simp
  then have same: "objs ! a = objs0 ! a"
    by (simp add: pre)
  let ?objs1 = "objs @ [copy (objs ! a)]"
  have "archive_inv objs0 members0 sw (archive_add ?objs1 ar (length objs))"
  proof (rule archive_add_inv)
    show "archive_inv objs0 members0 sw (?objs1, ar)"
      using Cons.prems(1) by (simp add: oa archive_inv_append)
    show "length objs < length ?objs1"
      by simp
    show "\<exists>p \<in> set sw. ?objs1 ! length objs = objs0 ! p"
      using a(1) same by (auto simp add: copy_def)
  qed
  then have "archive_inv objs0 members0 sw
      (global_best_update (archive_add ?objs1 ar (length objs)) rest)"
    using Cons.prems(2) by (intro Cons.IH) simp_all
  then show ?case
    by (simp add: oa new_object_def Let_def)
qed

lemma archive_inv_start:
  assumes "archive_separate s"
  shows "archive_inv (objects s) (solution_list (leaders s)) (swarm s) (objects s, leaders s)"
  using assms by (auto simp add: archive_inv_def archive_separate_def list_all_iff)

lemma archive_inv_end:
  assumes sep: "archive_separate s"
    and inv: "archive_inv (objects s) (solution_list (leaders s)) (swarm s) oa"
    and s': "s' = s\<lparr>objects := fst oa, leaders := snd oa\<rparr>"
  shows "archive_separate s' \<and> members_are_copies s s' \<and>
         take (length (objects s)) (objects s') = objects s \<and> swarm s' = swarm s \<and>
         list_all (\<lambda>p. list_all (\<lambda>m. \<forall>v. (objects s')[p := v] ! m = objects s' ! m)
                     (solution_list (leaders s'))) (swarm s')"
proof -
  have sw: "\<And>p. p \<in> set (swarm s) \<Longrightarrow> p < length (objects s)"
    and old: "\<And>m. m \<in> set (solution_list (leaders s)) \<Longrightarrow> m \<notin> set (swarm s)"
    using sep by (auto simp add: archive_separate_def list_all_iff)
  have len: "length (objects s) \<le> length (fst oa)"
    and pre: "take (length (objects s)) (fst oa) = objects s"
    and mem: "\<And>m. m \<in> set (solution_list (snd oa)) \<Longrightarrow>
      m < length (fst oa) \<and>
      (m \<in> set (solution_list (leaders s)) \<or>
       (length (objects s) \<le> m \<and> (\<exists>p \<in> set (swarm s). fst oa ! m = objects s ! p)))"
    using inv by (simp_all add: archive_inv_def)
  have apart: "m \<notin> set (swarm s)" if "m \<in> set (solution_list (snd oa))" for m
    using mem [OF that] old [of m] sw [of m] by auto
  have 1: "archive_separate s'"
    using sw len mem apart by (fastforce simp add: archive_separate_def list_all_iff s')
  have 2: "members_are_copies s s'"
    using mem by (fastforce simp add: members_are_copies_def list_all_iff list_ex_iff s')
  have 3: "list_all (\<lambda>p. list_all (\<lambda>m. \<forall>v. (objects s')[p := v] ! m = objects s' ! m)
                     (solution_list (leaders s'))) (swarm s')"
  proof -
    have "(fst oa)[p := v] ! m = fst oa ! m"
      if "p \<in> set (swarm s)" and "m \<in> set (solution_list (snd oa))" for p m v
    proof -
      have "p \<noteq> m"
        using that apart [of m] by auto
      then show ?thesis
        by simp
    qed
    then show ?thesis
      by (simp add: list_all_iff s')
  qed
  show ?thesis
    using 1 2 3 pre by (simp add: s')
qed

text \<open>
  Claim C8. Let the references of the swarm and of the archive point into the object
  store, with no member of the archive an object of the swarm (as for the empty archive
  the loop starts with). Then after \<^verbatim>\<open>initialize_global_best\<close>, and likewise after
  \<^verbatim>\<open>update_global_best\<close>, every member of the archive is an earlier member or a new
  object with the content of a particle, no member is an object of the swarm, the
  objects that existed before and the swarm are unchanged, and overwriting any particle
  of the swarm leaves every member of the archive as it is.
\<close>

theorem archive_members_independent:
  assumes "archive_separate s"
  shows "(let s' = snd (initialize_global_best s swarm_arg) in
          archive_separate s' \<and> members_are_copies s s' \<and>
          take (length (objects s)) (objects s') = objects s \<and> swarm s' = swarm s \<and>
          list_all (\<lambda>p. list_all (\<lambda>m. \<forall>v. (objects s')[p := v] ! m = objects s' ! m)
                      (solution_list (leaders s'))) (swarm s')) \<and>
         (let s' = snd (update_global_best s swarm_arg) in
          archive_separate s' \<and> members_are_copies s s' \<and>
          take (length (objects s)) (objects s') = objects s \<and> swarm s' = swarm s \<and>
          list_all (\<lambda>p. list_all (\<lambda>m. \<forall>v. (objects s')[p := v] ! m = objects s' ! m)
                      (solution_list (leaders s'))) (swarm s'))"
proof -
  have todo: "\<forall>a \<in> set (swarm s). a \<in> set (swarm s) \<and> a < length (objects s)"
    using assms by (simp add: archive_separate_def list_all_iff)
  have i: "archive_inv (objects s) (solution_list (leaders s)) (swarm s)
      (global_best_init (objects s, leaders s) (swarm s))"
    using archive_inv_start [OF assms] todo by (rule global_best_init_inv)
  have u: "archive_inv (objects s) (solution_list (leaders s)) (swarm s)
      (global_best_update (objects s, leaders s) (swarm s))"
    using archive_inv_start [OF assms] todo by (rule global_best_update_inv)
  show ?thesis
    unfolding Let_def
    using archive_inv_end [OF assms i refl] archive_inv_end [OF assms u refl]
    by (simp add: initialize_global_best_def update_global_best_def Let_def)
qed

text \<open>
  The example state with the two leaders satisfies the hypothesis of the theorem. Its
  particle is dominated by neither leader, so \<^verbatim>\<open>initialize_global_best\<close> adds the copy
  made by the archive (object 3), and \<^verbatim>\<open>update_global_best\<close> the archive's copy (object
  4) of the copy made by the loop (object 3).
\<close>

theorem archive_members_independent_witness:
  "archive_separate (example_state [1, 2] (Num 0)) \<and>
   archive_separate (snd (initialize_global_best (example_state [1, 2] (Num 0)) [])) \<and>
   archive_separate (snd (update_global_best (example_state [1, 2] (Num 0)) [])) \<and>
   solution_list (leaders (snd (initialize_global_best (example_state [1, 2] (Num 0)) []))) = [1, 2, 3] \<and>
   solution_list (leaders (snd (update_global_best (example_state [1, 2] (Num 0)) []))) = [1, 2, 4]"
proof -
  have h: "archive_separate (example_state [1, 2] (Num 0))"
    by (simp add: archive_separate_def example_state_def example_archive_def)
  have i: "solution_list (leaders (snd (initialize_global_best (example_state [1, 2] (Num 0)) []))) = [1, 2, 3]"
    by (simp add: initialize_global_best_def archive_add_def new_object_def dominance_compare_def
        dominates_def Let_def example_defs)
  have u: "solution_list (leaders (snd (update_global_best (example_state [1, 2] (Num 0)) []))) = [1, 2, 4]"
    by (simp add: update_global_best_def archive_add_def new_object_def dominance_compare_def
        dominates_def copy_def Let_def example_defs)
  show ?thesis
    using h i u archive_members_independent [OF h, of "[]"] by (simp add: Let_def)
qed

subsection \<open>Claim C9: the velocity update changes the velocities only\<close>

lemma velocity_var_frame:
  "snd (velocity_var s i l var) = s\<lparr>speed := speed (snd (velocity_var s i l var))\<rparr>"
  by (simp add: velocity_var_def split: sum.splits)

lemma velocity_vars_frame:
  "snd (velocity_vars s i l vars) = s\<lparr>speed := speed (snd (velocity_vars s i l vars))\<rparr>"
proof (induction vars arbitrary: s)
  case Nil
  show ?case by simp
next
  case (Cons var rest)
  obtain err s' where step: "velocity_var s i l var = (err, s')"
    by (cases "velocity_var s i l var")
  have s': "s' = s\<lparr>speed := speed s'\<rparr>"
    using velocity_var_frame [of s i l var] step by simp
  show ?case
  proof (cases err)
    case (Some e)
    then show ?thesis using step s' by simp
  next
    case None
    have "snd (velocity_vars s' i l rest) = s'\<lparr>speed := speed (snd (velocity_vars s' i l rest))\<rparr>"
      by (rule Cons.IH)
    then have "snd (velocity_vars s' i l rest) = s\<lparr>speed := speed (snd (velocity_vars s' i l rest))\<rparr>"
      by (subst (asm) s') simp
    then show ?thesis using step None by simp
  qed
qed

lemma velocity_particle_frame:
  "snd (velocity_particle d s i) = s\<lparr>speed := speed (snd (velocity_particle d s i))\<rparr>"
  unfolding velocity_particle_def
  by (auto split: sum.splits intro: velocity_vars_frame)

lemma velocity_particles_frame:
  "snd (velocity_particles rnd s todo) = s\<lparr>speed := speed (snd (velocity_particles rnd s todo))\<rparr>"
proof (induction todo arbitrary: s)
  case Nil
  show ?case by simp
next
  case (Cons i rest)
  obtain err s' where step: "velocity_particle (rnd i) s i = (err, s')"
    by (cases "velocity_particle (rnd i) s i")
  have s': "s' = s\<lparr>speed := speed s'\<rparr>"
    using velocity_particle_frame [of "rnd i" s i] step by simp
  show ?case
  proof (cases err)
    case (Some e)
    then show ?thesis using step s' by simp
  next
    case None
    have "snd (velocity_particles rnd s' rest) =
        s'\<lparr>speed := speed (snd (velocity_particles rnd s' rest))\<rparr>"
      by (rule Cons.IH)
    then have "snd (velocity_particles rnd s' rest) =
        s\<lparr>speed := speed (snd (velocity_particles rnd s' rest))\<rparr>"
      by (subst (asm) s') simp
    then show ?thesis using step None by simp
  qed
qed

text \<open>
  Claim C9. Whatever the random draws return, and whether the call returns or raises,
  the state \<^verbatim>\<open>update_velocity\<close> leaves differs from the state it started in at most in
  the velocity matrix \<^verbatim>\<open>self.speed\<close>: the objects (the variables, objectives and
  attributes of every solution, \<^verbatim>\<open>local_best\<close> included), the swarm and the archive are
  unchanged.
\<close>

theorem update_velocity_frame:
  "snd (update_velocity rnd s swarm_arg) =
     s\<lparr>speed := speed (snd (update_velocity rnd s swarm_arg))\<rparr> \<and>
   objects (snd (update_velocity rnd s swarm_arg)) = objects s \<and>
   swarm (snd (update_velocity rnd s swarm_arg)) = swarm s \<and>
   leaders (snd (update_velocity rnd s swarm_arg)) = leaders s"
proof -
  have eq: "snd (update_velocity rnd s swarm_arg) =
      s\<lparr>speed := speed (snd (update_velocity rnd s swarm_arg))\<rparr>"
    unfolding update_velocity_def by (rule velocity_particles_frame)
  have "objects (snd (update_velocity rnd s swarm_arg)) = objects s"
    and "swarm (snd (update_velocity rnd s swarm_arg)) = swarm s"
    and "leaders (snd (update_velocity rnd s swarm_arg)) = leaders s"
    by (subst eq, simp)+
  then show ?thesis
    using eq by simp
qed

text \<open>
  In the example state, with draws that succeed, the velocity becomes nan while the
  objects stay what they were.
\<close>

theorem update_velocity_frame_witness:
  "speed (snd (update_velocity (\<lambda>i. instance_calls [0, 1] (1/2) (1/2) 2 2)
      (example_state [1, 2] (Num 0)) [0])) = [[NaN]] \<and>
   objects (snd (update_velocity (\<lambda>i. instance_calls [0, 1] (1/2) (1/2) 2 2)
      (example_state [1, 2] (Num 0)) [0])) = [example_particle, example_leader1, example_leader2]"
proof -
  have "objects (example_state [1, 2] (Num 0)) = [example_particle, example_leader1, example_leader2]"
    by (simp add: example_state_def)
  moreover have "speed (snd (update_velocity (\<lambda>i. instance_calls [0, 1] (1/2) (1/2) 2 2)
      (example_state [1, 2] (Num 0)) [0])) = [[NaN]]"
    by (simp add: update_velocity_def velocity_particle_def select_global_best_def instance_calls_def
       py_sample_def velocity_var_def raw_velocity_def velocity_constriction_def
       constriction_coefficient_def matrix_getitem_def matrix_setitem_def copy_def
       list_getitem_def list_setitem_def dict_getitem_def example_defs)
  ultimately show ?thesis
    using update_velocity_frame [of "\<lambda>i. instance_calls [0, 1] (1/2) (1/2) 2 2"
        "example_state [1, 2] (Num 0)" "[0]"]
    by simp
qed

subsection \<open>Claim C10: the swarm parameter is ignored\<close>

lemma perturb_frame:
  "snd (perturb s k todo) = s\<lparr>objects := objects (snd (perturb s k todo))\<rparr>"
proof (induction todo arbitrary: s k)
  case Nil
  show ?case by simp
next
  case (Cons a rest)
  show ?case
  proof (cases "mutation s k (objects s ! a)")
    case (Inl e)
    then show ?thesis by simp
  next
    case (Inr p')
    let ?s1 = "s\<lparr>objects := (objects s)[a := p']\<rparr>"
    have "snd (perturb ?s1 (Suc k) rest) = ?s1\<lparr>objects := objects (snd (perturb ?s1 (Suc k) rest))\<rparr>"
      by (rule Cons.IH)
    then show ?thesis using Inr by simp
  qed
qed

text \<open>
  Claim C10. \<^verbatim>\<open>initialize_global_best\<close>, \<^verbatim>\<open>initialize_particle_best\<close>, \<^verbatim>\<open>perturbation\<close> and
  \<^verbatim>\<open>update_global_best\<close> give the same result and the same state for any two lists
  passed as \<^verbatim>\<open>swarm\<close>; what they change is the objects and, for the two methods on the
  global best, the archive, and nothing else of the state.
\<close>

theorem swarm_parameter_ignored:
  "initialize_global_best s swarm1 = initialize_global_best s swarm2 \<and>
   initialize_particle_best s swarm1 = initialize_particle_best s swarm2 \<and>
   perturbation s swarm1 = perturbation s swarm2 \<and>
   update_global_best s swarm1 = update_global_best s swarm2 \<and>
   snd (initialize_global_best s swarm1) =
     s\<lparr>objects := objects (snd (initialize_global_best s swarm1)),
       leaders := leaders (snd (initialize_global_best s swarm1))\<rparr> \<and>
   snd (initialize_particle_best s swarm1) =
     s\<lparr>objects := objects (snd (initialize_particle_best s swarm1))\<rparr> \<and>
   snd (perturbation s swarm1) = s\<lparr>objects := objects (snd (perturbation s swarm1))\<rparr> \<and>
   snd (update_global_best s swarm1) =
     s\<lparr>objects := objects (snd (update_global_best s swarm1)),
       leaders := leaders (snd (update_global_best s swarm1))\<rparr>"
  using perturb_frame [of s 0 "swarm s"]
  by (simp add: initialize_global_best_def initialize_particle_best_def perturbation_def
      update_global_best_def Let_def)

text \<open>
  In the example state the empty list and the list of the particle as argument give the
  same results, and the swarm of the state is what the methods work on.
\<close>

theorem swarm_parameter_ignored_witness:
  "perturbation (example_state [1, 2] (Num 0)) [] = perturbation (example_state [1, 2] (Num 0)) [0] \<and>
   initialize_global_best (example_state [1, 2] (Num 0)) [] =
     initialize_global_best (example_state [1, 2] (Num 0)) [0] \<and>
   perturbation (example_state [1, 2] (Num 0)) [] = (None, example_state [1, 2] (Num 0))"
proof -
  have "perturbation (example_state [1, 2] (Num 0)) [] = (None, example_state [1, 2] (Num 0))"
    by (simp add: perturbation_def example_state_def)
  then show ?thesis
    using swarm_parameter_ignored [of "example_state [1, 2] (Num 0)" "[]" "[0]"] by simp
qed

end
